theory Spec2Isabelle
  imports Main "HOL-Library.FSet" "HOL-Library.Option_ord" "HOL-Library.Multiset"
begin

section \<open>The allocation domain model (corelib/allocation/domain/model.py)\<close>

subsection \<open>Value types\<close>

text \<open>
  The module's \<open>NewType\<close> aliases.  \<open>OrderId\<close> and \<open>Reference\<close> are Python strings,
  \<open>Quantity\<close> and \<open>Sku\<close> are (unbounded) Python integers.  A \<open>datetime.date\<close> is a
  point of a linear order; it is represented by its day number (\<open>date.toordinal()\<close>),
  which is what \<open>date.__gt__\<close> compares.
\<close>

type_synonym OrderId = string
type_synonym Quantity = int
type_synonym Sku = int
type_synonym Reference = string
type_synonym date = int

text \<open>
  \<open>OrderLine\<close> is a dataclass: its generated \<open>__eq__\<close> and \<open>__hash__\<close> compare the
  three fields, which is equality of records.
\<close>

record OrderLine =
  orderid :: OrderId
  sku :: Sku
  qty :: Quantity

text \<open>
  The attributes that \<open>Batch.__init__\<close> assigns.  \<open>_allocations\<close> is a Python set of
  order lines, hence finite and without duplicates.  \<open>Batch.sku\<close> and \<open>OrderLine.sku\<close>
  are always written with their qualifier below.
\<close>

record Batch =
  reference :: Reference
  sku :: Sku
  eta :: "date option"
  purchased_quantity :: Quantity
  allocations :: "OrderLine fset"

definition Batch_init :: "Reference \<Rightarrow> Sku \<Rightarrow> Quantity \<Rightarrow> date option \<Rightarrow> Batch" where
  "Batch_init ref s q e =
     \<lparr>reference = ref, sku = s, eta = e, purchased_quantity = q, allocations = {||}\<rparr>"

text \<open>
  Modelled from the spec: the exception class \<open>OutOfStock\<close> is imported from
  \<open>corelib.exceptions\<close>, a module outside \<open>model.py\<close>.  It is the single error kind of
  the module and is raised with one message argument, which the constructor carries.
\<close>

datatype error = OutOfStock string

text \<open>
  Batches are mutable objects that callers hold by reference, and the same object may
  occur several times in a list.  The store maps an object identity to the current state
  of the batch living there.
\<close>

type_synonym addr = nat
type_synonym heap = "addr \<Rightarrow> Batch"

subsection \<open>Derived quantities (read-only properties)\<close>

definition allocated_quantity :: "Batch \<Rightarrow> int" where
  "allocated_quantity b = sum qty (fset (allocations b))"

definition available_quantity :: "Batch \<Rightarrow> int" where
  "available_quantity b = purchased_quantity b - allocated_quantity b"

subsection \<open>Methods of \<open>Batch\<close>\<close>

text \<open>
  A method call on the object at \<open>self\<close> takes the store and returns its result together
  with the store it leaves behind.  \<open>can_allocate\<close> has no assignment in its body.
\<close>

definition can_allocate :: "addr \<Rightarrow> OrderLine \<Rightarrow> heap \<Rightarrow> bool \<times> heap" where
  "can_allocate self line h =
     (Batch.sku (h self) = OrderLine.sku line \<and> qty line \<le> available_quantity (h self), h)"

text \<open>\<open>Batch.allocate\<close> and \<open>Batch.deallocate\<close> return \<open>None\<close>; only the store is kept.\<close>

definition Batch_allocate :: "addr \<Rightarrow> OrderLine \<Rightarrow> heap \<Rightarrow> heap" where
  "Batch_allocate self line h =
     (case can_allocate self line h of
        (ok, h1) \<Rightarrow>
          if ok
          then h1(self := (h1 self)\<lparr>allocations := finsert line (allocations (h1 self))\<rparr>)
          else h1)"

definition Batch_deallocate :: "addr \<Rightarrow> OrderLine \<Rightarrow> heap \<Rightarrow> heap" where
  "Batch_deallocate self line h =
     (if line |\<in>| allocations (h self)
      then h(self := (h self)\<lparr>allocations := allocations (h self) |-| {|line|}\<rparr>)
      else h)"

text \<open>\<open>Batch.__gt__\<close>: comparison by \<open>eta\<close>, where a missing \<open>eta\<close> is never greater.\<close>

definition Batch_gt :: "Batch \<Rightarrow> Batch \<Rightarrow> bool" where
  "Batch_gt self other =
     (case eta self of
        None \<Rightarrow> False
      | Some d \<Rightarrow> (case eta other of None \<Rightarrow> True | Some e \<Rightarrow> d > e))"

text \<open>
  \<open>Batch\<close> defines no \<open>__lt__\<close>.  Python evaluates \<open>a < b\<close> on two batches by the
  reflected call \<open>b.__gt__(a)\<close>.
\<close>

definition Batch_lt :: "Batch \<Rightarrow> Batch \<Rightarrow> bool" where
  "Batch_lt a b = Batch_gt b a"

text \<open>
  \<open>Batch.__eq__\<close> accepts any object; \<open>isinstance(other, Batch)\<close> separates the batches
  from everything else.
\<close>

datatype pyobject = BatchObj Batch | OrderLineObj OrderLine | NoneObj

fun Batch_eq :: "Batch \<Rightarrow> pyobject \<Rightarrow> bool" where
  "Batch_eq self (BatchObj other) = (reference other = reference self)"
| "Batch_eq self _ = False"

text \<open>
  \<open>Batch.__hash__\<close> returns \<open>hash(self.reference)\<close>.  The hash of a string is a builtin
  of the interpreter and is a parameter here.
\<close>

definition Batch_hash :: "(string \<Rightarrow> int) \<Rightarrow> Batch \<Rightarrow> int" where
  "Batch_hash str_hash self = str_hash (reference self)"

subsection \<open>The selection policy \<open>allocate\<close>\<close>

text \<open>
  The builtin \<open>sorted\<close> is a stable sort that compares elements with \<open><\<close> only.  It is
  modelled by stable insertion: an element moves behind exactly those elements that
  are strictly smaller than it.
\<close>

fun insort_lt :: "('a \<Rightarrow> 'a \<Rightarrow> bool) \<Rightarrow> 'a \<Rightarrow> 'a list \<Rightarrow> 'a list" where
  "insort_lt lt x [] = [x]"
| "insort_lt lt x (y # ys) = (if lt y x then y # insort_lt lt x ys else x # y # ys)"

fun sorted_lt :: "('a \<Rightarrow> 'a \<Rightarrow> bool) \<Rightarrow> 'a list \<Rightarrow> 'a list" where
  "sorted_lt lt [] = []"
| "sorted_lt lt (x # xs) = insort_lt lt x (sorted_lt lt xs)"

text \<open>\<open>sorted(batches)\<close> on a list of references, in the store \<open>h\<close>.\<close>

definition sorted_batches :: "heap \<Rightarrow> addr list \<Rightarrow> addr list" where
  "sorted_batches h batches = sorted_lt (\<lambda>a b. Batch_lt (h a) (h b)) batches"

text \<open>
  \<open>next(b for b in ... if b.can_allocate(line))\<close>: the generator calls \<open>can_allocate\<close>
  on one batch after the other and stops at the first success; \<open>None\<close> stands for
  \<open>StopIteration\<close>.
\<close>

fun next_can_allocate :: "OrderLine \<Rightarrow> addr list \<Rightarrow> heap \<Rightarrow> addr option \<times> heap" where
  "next_can_allocate line [] h = (None, h)"
| "next_can_allocate line (b # bs) h =
     (case can_allocate b line h of
        (ok, h1) \<Rightarrow> if ok then (Some b, h1) else next_can_allocate line bs h1)"

text \<open>\<open>str\<close> of an integer, as the f-string \<open>{line.sku}\<close> formats it.\<close>

fun str_nat :: "nat \<Rightarrow> string" where
  "str_nat n =
     (if n < 10 then [''0123456789'' ! n]
      else str_nat (n div 10) @ [''0123456789'' ! (n mod 10)])"

definition str_int :: "int \<Rightarrow> string" where
  "str_int i = (if i < 0 then ''-'' @ str_nat (nat (- i)) else str_nat (nat i))"

definition allocate :: "OrderLine \<Rightarrow> addr list \<Rightarrow> heap \<Rightarrow> (error + Reference) \<times> heap" where
  "allocate line batches h =
     (case next_can_allocate line (sorted_batches h batches) h of
        (None, h1) \<Rightarrow>
          (Inl (OutOfStock (''Out of stock for sku: '' @ str_int (OrderLine.sku line))), h1)
      | (Some batch, h1) \<Rightarrow>
          (let h2 = Batch_allocate batch line h1 in (Inr (reference (h2 batch)), h2)))"

subsection \<open>Sequences of method calls on one batch\<close>

datatype batch_op = Allocate OrderLine | Deallocate OrderLine

fun op_line :: "batch_op \<Rightarrow> OrderLine" where
  "op_line (Allocate l) = l"
| "op_line (Deallocate l) = l"

fun run_op :: "addr \<Rightarrow> batch_op \<Rightarrow> heap \<Rightarrow> heap" where
  "run_op self (Allocate l) h = Batch_allocate self l h"
| "run_op self (Deallocate l) h = Batch_deallocate self l h"

fun run_ops :: "addr \<Rightarrow> batch_op list \<Rightarrow> heap \<Rightarrow> heap" where
  "run_ops self [] h = h"
| "run_ops self (x # xs) h = run_ops self xs (run_op self x h)"


subsection \<open>The invariant behind a nonnegative available quantity\<close>

definition batch_inv :: "Batch \<Rightarrow> bool" where
  "batch_inv b \<longleftrightarrow> 0 \<le> available_quantity b \<and> (\<forall>l. l |\<in>| allocations b \<longrightarrow> 0 < qty l)"

subsection \<open>Concrete order lines, batches and stores\<close>

text \<open>
  Three batches of sku 7 with twenty units each: one arriving on 2020-01-02, one on
  2020-01-01 (day numbers 737426 and 737425) and one in stock.
\<close>

definition example_line :: OrderLine where
  "example_line = \<lparr>orderid = ''order-ref'', sku = 7, qty = 2\<rparr>"

definition exact_line :: OrderLine where
  "exact_line = \<lparr>orderid = ''order-all'', sku = 7, qty = 20\<rparr>"

definition other_sku_line :: OrderLine where
  "other_sku_line = \<lparr>orderid = ''order-ref'', sku = 8, qty = 2\<rparr>"

definition example_heap :: heap where
  "example_heap =
     (\<lambda>_. Batch_init [] 0 0 None)
       (0 := Batch_init ''batch-later'' 7 20 (Some 737426),
        1 := Batch_init ''batch-earlier'' 7 20 (Some 737425),
        2 := Batch_init ''batch-in-stock'' 7 20 None)"

text \<open>The same store with a single unit left in stock.\<close>

definition short_heap :: heap where
  "short_heap = example_heap(2 := Batch_init ''batch-in-stock'' 7 1 None)"

text \<open>Two batches that arrive on the same day.\<close>

definition tie_heap :: heap where
  "tie_heap =
     (\<lambda>_. Batch_init [] 0 0 None)
       (0 := Batch_init ''batch-b'' 7 20 (Some 737425),
        1 := Batch_init ''batch-a'' 7 20 (Some 737425),
        2 := Batch_init ''batch-c'' 7 20 (Some 737430))"

definition example_ops :: "batch_op list" where
  "example_ops =
     [Allocate example_line, Allocate exact_line, Deallocate example_line, Allocate exact_line]"

text \<open>The store after \<open>example_line\<close> has been allocated to the batch in stock.\<close>

definition allocated_heap :: heap where
  "allocated_heap = Batch_allocate 2 example_line example_heap"

lemmas example_defs =
  example_line_def exact_line_def other_sku_line_def example_heap_def Batch_init_def
  can_allocate_def available_quantity_def allocated_quantity_def

section \<open>Auxiliary facts\<close>

subsection \<open>Selection and sorting\<close>

lemma can_allocate_snd [simp]: "snd (can_allocate self line h) = h"
  by (simp add: can_allocate_def)

lemma next_can_allocate_find:
  "next_can_allocate line bs h = (find (\<lambda>b. fst (can_allocate b line h)) bs, h)"
  by (induction bs) (auto simp: can_allocate_def)

lemma Batch_lt_eta: "Batch_lt a b \<longleftrightarrow> eta a < eta b"
  by (auto simp: Batch_lt_def Batch_gt_def split: option.splits)

lemma insort_lt_key: "insort_lt (\<lambda>a b. f a < f b) x xs = insort_key f x xs"
  by (induction xs) auto

lemma sorted_lt_key: "sorted_lt (\<lambda>a b. f a < f b) xs = sort_key f xs"
  by (induction xs) (simp_all add: insort_lt_key)

lemma sorted_batches_sort_key: "sorted_batches h bs = sort_key (\<lambda>a. eta (h a)) bs"
  by (simp add: sorted_batches_def Batch_lt_eta sorted_lt_key)

lemma find_filter: "find P (filter Q xs) = find (\<lambda>x. Q x \<and> P x) xs"
  by (induction xs) auto

lemma find_Some_filter:
  "find P xs = Some b \<Longrightarrow> Q b \<Longrightarrow> find P (filter Q xs) = Some b"
  by (induction xs) (auto split: if_splits)

lemma find_can_allocate_holds:
  "find (\<lambda>b. fst (can_allocate b line h)) xs = Some b \<Longrightarrow> fst (can_allocate b line h) \<and> b \<in> set xs"
  by (induction xs) (auto split: if_splits)

lemma Batch_allocate_ok:
  "fst (can_allocate self line h) \<Longrightarrow>
   Batch_allocate self line h = h(self := (h self)\<lparr>allocations := finsert line (allocations (h self))\<rparr>)"
  by (simp add: Batch_allocate_def can_allocate_def)

lemma Batch_allocate_no:
  "\<not> fst (can_allocate self line h) \<Longrightarrow> Batch_allocate self line h = h"
  by (auto simp: Batch_allocate_def can_allocate_def)

lemma allocate_None:
  assumes "find (\<lambda>b. fst (can_allocate b line h)) (sorted_batches h bs) = None"
  shows "allocate line bs h =
           (Inl (OutOfStock (''Out of stock for sku: '' @ str_int (OrderLine.sku line))), h)"
  using assms by (simp add: allocate_def next_can_allocate_find)

lemma allocate_Some:
  assumes "find (\<lambda>b. fst (can_allocate b line h)) (sorted_batches h bs) = Some b"
  shows "allocate line bs h =
           (Inr (reference (h b)),
            h(b := (h b)\<lparr>allocations := finsert line (allocations (h b))\<rparr>))"
proof -
  from assms have "fst (can_allocate b line h)"
    by (rule find_can_allocate_holds [THEN conjunct1])
  then have "Batch_allocate b line h =
      h(b := (h b)\<lparr>allocations := finsert line (allocations (h b))\<rparr>)"
    by (rule Batch_allocate_ok)
  with assms show ?thesis
    by (simp add: allocate_def next_can_allocate_find)
qed

lemma set_sorted_batches [simp]: "set (sorted_batches h bs) = set bs"
  by (simp add: sorted_batches_sort_key)

lemma find_None_sorted:
  "find P (sorted_batches h bs) = None \<longleftrightarrow> (\<forall>b\<in>set bs. \<not> P b)"
  by (auto simp: find_None_iff)

lemma sorted_batches_not_gt:
  "sorted_wrt (\<lambda>a b. \<not> Batch_gt (h a) (h b)) (sorted_batches h bs)"
proof -
  have "sorted (map (\<lambda>a. eta (h a)) (sorted_batches h bs))"
    by (simp add: sorted_batches_sort_key)
  then have "sorted_wrt (\<lambda>a b. eta (h a) \<le> eta (h b)) (sorted_batches h bs)"
    by (simp add: sorted_map)
  moreover have "(\<lambda>a b. eta (h a) \<le> eta (h b)) = (\<lambda>a b. \<not> Batch_gt (h a) (h b))"
    using Batch_lt_eta [of "h b" "h a" for a b] by (auto simp: Batch_lt_def fun_eq_iff not_less)
  ultimately show ?thesis by simp
qed

lemma sorted_batches_stable:
  "filter (\<lambda>a. eta (h a) = k) (sorted_batches h bs) = filter (\<lambda>a. eta (h a) = k) bs"
  by (simp add: sorted_batches_sort_key sort_key_stable)

text \<open>
  The choice of insertion as the sorting algorithm is immaterial: every list that is a
  permutation of the input, ascending in the batch order and stable is the list that
  \<open>sorted_batches\<close> computes.
\<close>

lemma not_Batch_gt_eta: "\<not> Batch_gt a b \<longleftrightarrow> eta a \<le> eta b"
  using Batch_lt_eta [of b a] by (simp add: Batch_lt_def not_less)

lemma stable_sort_unique:
  assumes "mset ys = mset bs"
    and "sorted_wrt (\<lambda>x y. \<not> Batch_gt (h x) (h y)) ys"
    and "\<And>k. filter (\<lambda>x. eta (h x) = k) ys = filter (\<lambda>x. eta (h x) = k) bs"
  shows "sorted_batches h bs = ys"
proof -
  have "sorted (map (\<lambda>a. eta (h a)) ys)"
    using assms(2) by (simp add: sorted_map not_Batch_gt_eta)
  moreover have "filter (\<lambda>x. eta (h k) = eta (h x)) ys = filter (\<lambda>x. eta (h k) = eta (h x)) bs"
    for k
    using assms(3) [of "eta (h k)"] by (simp add: eq_commute)
  ultimately have "sort_key (\<lambda>a. eta (h a)) bs = ys"
    using assms(1) by (intro properties_for_sort_key) simp_all
  then show ?thesis by (simp add: sorted_batches_sort_key)
qed

lemma find_first_not_gt:
  assumes "sorted_wrt (\<lambda>a b. \<not> G a b) xs" "find P xs = Some b" "a \<in> set xs" "P a"
  shows "\<not> G b a \<or> a = b"
  using assms
proof (induction xs)
  case Nil then show ?case by simp
next
  case (Cons x xs) then show ?case by (auto split: if_splits)
qed

subsection \<open>Preservation of the invariant\<close>

lemma batch_inv_init: "0 \<le> q \<Longrightarrow> batch_inv (Batch_init ref s q e)"
  by (simp add: batch_inv_def Batch_init_def available_quantity_def allocated_quantity_def)

lemma batch_inv_allocate:
  assumes "batch_inv (h self)" "0 < qty line"
  shows "batch_inv (Batch_allocate self line h self)"
proof (cases "fst (can_allocate self line h)")
  case False
  with assms show ?thesis by (simp add: Batch_allocate_no)
next
  case True
  then have le: "qty line \<le> available_quantity (h self)"
    by (simp add: can_allocate_def)
  show ?thesis
  proof (cases "line |\<in>| allocations (h self)")
    case True
    then have "finsert line (allocations (h self)) = allocations (h self)" by auto
    with assms \<open>fst (can_allocate self line h)\<close> show ?thesis
      by (simp add: Batch_allocate_ok)
  next
    case False
    with assms le \<open>fst (can_allocate self line h)\<close> show ?thesis
      by (auto simp: Batch_allocate_ok batch_inv_def available_quantity_def
          allocated_quantity_def)
  qed
qed

lemma batch_inv_deallocate:
  assumes "batch_inv (h self)"
  shows "batch_inv (Batch_deallocate self line h self)"
proof (cases "line |\<in>| allocations (h self)")
  case False
  with assms show ?thesis by (simp add: Batch_deallocate_def)
next
  case True
  with assms have "0 < qty line" by (simp add: batch_inv_def)
  with True assms show ?thesis
    by (auto simp: Batch_deallocate_def batch_inv_def available_quantity_def
        allocated_quantity_def sum_diff1)
qed

lemma batch_inv_run_ops:
  "batch_inv (h self) \<Longrightarrow> \<forall>x\<in>set ops. 0 < qty (op_line x) \<Longrightarrow>
   batch_inv (run_ops self ops h self)"
proof (induction ops arbitrary: h)
  case Nil then show ?case by simp
next
  case (Cons x xs)
  have "batch_inv (run_op self x h self)"
    using Cons.prems by (cases x) (simp_all add: batch_inv_allocate batch_inv_deallocate)
  then show ?case using Cons by simp
qed

section \<open>Properties\<close>

subsection \<open>The selection policy\<close>

text \<open>
  C1.  Whenever some batch of the list can allocate the line, \<open>allocate\<close> picks the first
  batch of the sorted list that can: the sorted list holds the same batches, no batch in
  it is greater than a later one, so the pick \<open>b\<close> is not greater than any batch that can
  allocate.  The line is inserted into the allocation set of \<open>b\<close> and the reference of
  \<open>b\<close> is returned.  If some batch without eta can allocate, the pick has no eta; if no
  batch without eta can allocate, the pick is a dated batch.
\<close>

theorem allocate_selects_first:
  assumes "\<exists>a\<in>set batches. fst (can_allocate a line h)"
  shows "\<exists>b. fst (next_can_allocate line (sorted_batches h batches) h) = Some b
           \<and> find (\<lambda>a. fst (can_allocate a line h)) (sorted_batches h batches) = Some b
           \<and> sorted_wrt (\<lambda>x y. \<not> Batch_gt (h x) (h y)) (sorted_batches h batches)
           \<and> set (sorted_batches h batches) = set batches
           \<and> b \<in> set batches
           \<and> fst (can_allocate b line h)
           \<and> (\<forall>a\<in>set batches. fst (can_allocate a line h) \<longrightarrow>
                \<not> Batch_gt (h b) (h a)
                \<and> (eta (h b) = None
                    \<or> (\<exists>d e. eta (h b) = Some d \<and> eta (h a) = Some e \<and> d \<le> e)))
           \<and> ((\<exists>a\<in>set batches. eta (h a) = None \<and> fst (can_allocate a line h))
                \<longrightarrow> eta (h b) = None)
           \<and> ((\<forall>a\<in>set batches. eta (h a) = None \<longrightarrow> \<not> fst (can_allocate a line h))
                \<longrightarrow> eta (h b) \<noteq> None)
           \<and> allocate line batches h =
               (Inr (reference (h b)),
                h(b := (h b)\<lparr>allocations := finsert line (allocations (h b))\<rparr>))"
proof -
  let ?P = "\<lambda>a. fst (can_allocate a line h)"
  let ?s = "sorted_batches h batches"
  from assms have "find ?P ?s \<noteq> None"
    by (simp add: find_None_sorted)
  then obtain b where b: "find ?P ?s = Some b" by auto
  have hold: "?P b" and mem: "b \<in> set batches"
    using find_can_allocate_holds [OF b] by simp_all
  have srt: "sorted_wrt (\<lambda>x y. \<not> Batch_gt (h x) (h y)) ?s"
    by (rule sorted_batches_not_gt)
  have least: "\<not> Batch_gt (h b) (h a)" if "a \<in> set batches" "?P a" for a
  proof -
    from that have "a \<in> set ?s" by simp
    from find_first_not_gt [OF srt b this that(2)]
    show ?thesis by (auto simp: Batch_gt_def split: option.splits)
  qed
  have least': "eta (h b) = None \<or> (\<exists>d e. eta (h b) = Some d \<and> eta (h a) = Some e \<and> d \<le> e)"
    if "a \<in> set batches" "?P a" for a
    using least [OF that] by (auto simp: Batch_gt_def split: option.splits)
  have none_first: "eta (h b) = None"
    if "\<exists>a\<in>set batches. eta (h a) = None \<and> ?P a"
  proof -
    from that obtain a where "a \<in> set batches" "eta (h a) = None" "?P a" by auto
    with least [of a] show ?thesis
      by (auto simp: Batch_gt_def split: option.splits)
  qed
  have dated: "eta (h b) \<noteq> None"
    if "\<forall>a\<in>set batches. eta (h a) = None \<longrightarrow> \<not> ?P a"
    using that hold mem by auto
  have "fst (next_can_allocate line ?s h) = Some b"
    using b by (simp add: next_can_allocate_find)
  with b srt mem hold least least' none_first dated allocate_Some [OF b]
  show ?thesis by (intro exI [of _ b]) simp
qed

theorem allocate_selects_first_witness:
  "(\<exists>a\<in>set [0, 1, 2]. fst (can_allocate a example_line example_heap))
   \<and> allocate example_line [0, 1, 2] example_heap =
       (Inr ''batch-in-stock'',
        example_heap(2 := (example_heap 2)\<lparr>allocations := {|example_line|}\<rparr>))"
proof -
  have can: "fst (can_allocate a example_line example_heap)" if "a \<in> set [0, 1, 2]" for a
    using that by (auto simp: example_defs)
  then have hyp: "\<exists>a\<in>set [0, 1, 2]. fst (can_allocate a example_line example_heap)"
    by auto
  from allocate_selects_first [OF hyp] obtain b where
    b: "b \<in> set [0, 1, 2]"
    and none: "(\<exists>a\<in>set [0, 1, 2]. eta (example_heap a) = None
                  \<and> fst (can_allocate a example_line example_heap))
               \<longrightarrow> eta (example_heap b) = None"
    and res: "allocate example_line [0, 1, 2] example_heap =
       (Inr (reference (example_heap b)),
        example_heap(b := (example_heap b)
          \<lparr>allocations := finsert example_line (allocations (example_heap b))\<rparr>))"
    by blast
  have "eta (example_heap 2) = None" by (simp add: example_defs)
  with can [of 2] none have "eta (example_heap b) = None" by auto
  with b have "b = 2" by (auto simp: example_defs)
  with res hyp show ?thesis by (simp add: example_heap_def Batch_init_def)
qed

text \<open>
  C2.  \<open>allocate\<close> raises \<open>OutOfStock\<close> exactly when no batch of the list can allocate
  the line, the empty list included.  The error carries the message built from the sku
  of the line, and the store is the one the call started with: no batch is mutated.
\<close>

theorem allocate_out_of_stock:
  "(isl (fst (allocate line batches h)) \<longleftrightarrow> (\<forall>b\<in>set batches. \<not> fst (can_allocate b line h)))
   \<and> ((\<forall>b\<in>set batches. \<not> fst (can_allocate b line h)) \<longrightarrow>
        allocate line batches h =
          (Inl (OutOfStock (''Out of stock for sku: '' @ str_int (OrderLine.sku line))), h))
   \<and> allocate line [] h =
          (Inl (OutOfStock (''Out of stock for sku: '' @ str_int (OrderLine.sku line))), h)"
proof -
  let ?P = "\<lambda>a. fst (can_allocate a line h)"
  have none: "allocate line bs h =
      (Inl (OutOfStock (''Out of stock for sku: '' @ str_int (OrderLine.sku line))), h)"
    if "\<forall>b\<in>set bs. \<not> ?P b" for bs
  proof -
    from that have "find ?P (sorted_batches h bs) = None"
      by (simp add: find_None_sorted)
    then show ?thesis by (rule allocate_None)
  qed
  have some: "\<not> isl (fst (allocate line batches h))" if "\<exists>b\<in>set batches. ?P b"
  proof -
    from that have "find ?P (sorted_batches h batches) \<noteq> None"
      by (simp add: find_None_sorted)
    then obtain b where "find ?P (sorted_batches h batches) = Some b" by auto
    from allocate_Some [OF this] show ?thesis by simp
  qed
  have "isl (fst (allocate line batches h)) \<longleftrightarrow> (\<forall>b\<in>set batches. \<not> ?P b)"
    using none [of batches] some by auto
  moreover have "allocate line [] h =
      (Inl (OutOfStock (''Out of stock for sku: '' @ str_int (OrderLine.sku line))), h)"
    using none [of "[]"] by simp
  ultimately show ?thesis using none [of batches] by blast
qed

theorem allocate_out_of_stock_witness:
  "\<not> fst (can_allocate 0 other_sku_line example_heap)
   \<and> \<not> fst (can_allocate 1 other_sku_line example_heap)
   \<and> \<not> fst (can_allocate 2 other_sku_line example_heap)
   \<and> allocate other_sku_line [0, 1, 2] example_heap =
       (Inl (OutOfStock ''Out of stock for sku: 8''), example_heap)"
proof -
  have hyp: "\<forall>b\<in>set [0, 1, 2]. \<not> fst (can_allocate b other_sku_line example_heap)"
    by (simp add: example_defs)
  have "str_int (OrderLine.sku other_sku_line) = ''8''"
    by (simp add: other_sku_line_def str_int_def)
  with hyp allocate_out_of_stock [of other_sku_line "[0, 1, 2]" example_heap]
  show ?thesis by simp
qed

text \<open>
  C10.  When \<open>allocate\<close> returns a reference, it is the reference of the selected batch,
  and every other object of the store is unchanged; in particular every other batch of
  the list keeps its allocation set, allocated quantity and available quantity.
\<close>

theorem allocate_frame:
  "fst (allocate line batches h) = Inr r \<longrightarrow>
     (\<exists>b\<in>set batches.
        fst (next_can_allocate line (sorted_batches h batches) h) = Some b
        \<and> r = reference (h b)
        \<and> (\<forall>a. a \<noteq> b \<longrightarrow> snd (allocate line batches h) a = h a)
        \<and> (\<forall>a\<in>set batches. a \<noteq> b \<longrightarrow>
              allocations (snd (allocate line batches h) a) = allocations (h a)
              \<and> allocated_quantity (snd (allocate line batches h) a) = allocated_quantity (h a)
              \<and> available_quantity (snd (allocate line batches h) a) = available_quantity (h a)))"
proof
  let ?P = "\<lambda>a. fst (can_allocate a line h)"
  let ?s = "sorted_batches h batches"
  assume ok: "fst (allocate line batches h) = Inr r"
  have "find ?P ?s \<noteq> None"
  proof
    assume "find ?P ?s = None"
    from allocate_None [OF this] ok show False by simp
  qed
  then obtain b where b: "find ?P ?s = Some b" by auto
  have mem: "b \<in> set batches"
    using find_can_allocate_holds [OF b] by simp
  note eq = allocate_Some [OF b]
  have "fst (next_can_allocate line ?s h) = Some b"
    using b by (simp add: next_can_allocate_find)
  moreover have "r = reference (h b)" using ok eq by simp
  moreover have "\<forall>a. a \<noteq> b \<longrightarrow> snd (allocate line batches h) a = h a"
    using eq by simp
  ultimately show "\<exists>b\<in>set batches.
        fst (next_can_allocate line ?s h) = Some b
        \<and> r = reference (h b)
        \<and> (\<forall>a. a \<noteq> b \<longrightarrow> snd (allocate line batches h) a = h a)
        \<and> (\<forall>a\<in>set batches. a \<noteq> b \<longrightarrow>
              allocations (snd (allocate line batches h) a) = allocations (h a)
              \<and> allocated_quantity (snd (allocate line batches h) a) = allocated_quantity (h a)
              \<and> available_quantity (snd (allocate line batches h) a) = available_quantity (h a))"
    using mem by (intro bexI [of _ b]) simp_all
qed

theorem allocate_frame_witness:
  "fst (allocate example_line [0, 1, 2] short_heap) = Inr ''batch-earlier''
   \<and> snd (allocate example_line [0, 1, 2] short_heap) 0 = short_heap 0
   \<and> snd (allocate example_line [0, 1, 2] short_heap) 2 = short_heap 2
   \<and> snd (allocate example_line [0, 1, 2] short_heap) 1 \<noteq> short_heap 1"
proof -
  have srt: "sorted_batches short_heap [0, 1, 2] = [2, 1, 0]"
    by (simp add: sorted_batches_def Batch_lt_def Batch_gt_def short_heap_def example_defs)
  have fnd: "find (\<lambda>b. fst (can_allocate b example_line short_heap))
      (sorted_batches short_heap [0, 1, 2]) = Some 1"
    unfolding srt by (simp add: short_heap_def example_defs)
  have res: "fst (allocate example_line [0, 1, 2] short_heap) = Inr ''batch-earlier''"
    unfolding allocate_Some [OF fnd] by (simp add: short_heap_def example_defs)
  with allocate_frame [of example_line "[0, 1, 2]" short_heap "''batch-earlier''"]
  obtain b where b: "b \<in> set [0, 1, 2]" "''batch-earlier'' = reference (short_heap b)"
    and frame: "\<forall>a. a \<noteq> b \<longrightarrow> snd (allocate example_line [0, 1, 2] short_heap) a = short_heap a"
    by blast
  from b have "b = 1" by (auto simp: short_heap_def example_defs)
  moreover have "snd (allocate example_line [0, 1, 2] short_heap) 1 \<noteq> short_heap 1"
    unfolding allocate_Some [OF fnd] by (simp add: short_heap_def example_defs)
  ultimately show ?thesis using res frame by simp
qed

subsection \<open>Methods and derived quantities of a batch\<close>

text \<open>
  C3.  A batch constructed with a nonnegative purchased quantity has a nonnegative
  available quantity after every prefix of every sequence of \<open>allocate\<close> and
  \<open>deallocate\<close> calls on it whose order lines have positive quantities.
\<close>

theorem available_quantity_nonneg:
  assumes "0 \<le> q"
    and "h self = Batch_init ref s q e"
    and "\<forall>x\<in>set ops. 0 < qty (op_line x)"
  shows "\<forall>n. 0 \<le> available_quantity (run_ops self (take n ops) h self)"
proof
  fix n
  have "batch_inv (h self)" using assms(1,2) by (simp add: batch_inv_init)
  moreover have "\<forall>x\<in>set (take n ops). 0 < qty (op_line x)"
    using assms(3) by (auto dest: in_set_takeD)
  ultimately have "batch_inv (run_ops self (take n ops) h self)"
    by (rule batch_inv_run_ops)
  then show "0 \<le> available_quantity (run_ops self (take n ops) h self)"
    by (simp add: batch_inv_def)
qed

theorem available_quantity_nonneg_witness:
  "(0::int) \<le> 20
   \<and> example_heap 2 = Batch_init ''batch-in-stock'' 7 20 None
   \<and> list_all (\<lambda>x. 0 < qty (op_line x)) example_ops
   \<and> (\<forall>n. 0 \<le> available_quantity (run_ops 2 (take n example_ops) example_heap 2))"
proof -
  have h1: "(0::int) \<le> 20" by simp
  have h2: "example_heap 2 = Batch_init ''batch-in-stock'' 7 20 None"
    by (simp add: example_heap_def)
  have h3: "\<forall>x\<in>set example_ops. 0 < qty (op_line x)"
    by (simp add: example_ops_def example_line_def exact_line_def)
  from h1 h2 h3 available_quantity_nonneg [where h = example_heap and self = 2, OF h1 h2 h3]
  show ?thesis by (simp add: list_all_iff)
qed

text \<open>
  C4.  \<open>can_allocate\<close> answers true exactly when the line's sku is the batch's sku and
  the line's quantity is at most the available quantity, so an exact fit is
  allocatable; the call leaves the store, hence every batch, as it found it.
\<close>

theorem can_allocate_iff:
  "fst (can_allocate self line h) =
     (OrderLine.sku line = Batch.sku (h self) \<and> qty line \<le> available_quantity (h self))
   \<and> snd (can_allocate self line h) = h
   \<and> (OrderLine.sku line = Batch.sku (h self) \<and> qty line = available_quantity (h self)
        \<longrightarrow> fst (can_allocate self line h))"
  by (auto simp: can_allocate_def)

theorem can_allocate_iff_witness:
  "OrderLine.sku exact_line = Batch.sku (example_heap 0)
   \<and> qty exact_line = available_quantity (example_heap 0)
   \<and> fst (can_allocate 0 exact_line example_heap)
   \<and> snd (can_allocate 0 exact_line example_heap) = example_heap"
proof -
  have "OrderLine.sku exact_line = Batch.sku (example_heap 0)
      \<and> qty exact_line = available_quantity (example_heap 0)"
    by (simp add: example_defs)
  with can_allocate_iff [of 0 exact_line example_heap] show ?thesis by blast
qed

text \<open>
  C5.  \<open>Batch.allocate\<close> has no failing branch.  If \<open>can_allocate\<close> holds, the line is
  inserted into the allocation set of the batch and nothing else changes.  Otherwise
  the store is unchanged, and with it the allocation set, the allocated and the
  available quantity; this is the case for a line of another sku and for a line that
  asks for more than is available.
\<close>

theorem Batch_allocate_cases:
  "(fst (can_allocate self line h) \<longrightarrow>
      Batch_allocate self line h =
        h(self := (h self)\<lparr>allocations := finsert line (allocations (h self))\<rparr>)
      \<and> line |\<in>| allocations (Batch_allocate self line h self))
   \<and> (\<not> fst (can_allocate self line h) \<longrightarrow>
        Batch_allocate self line h = h
        \<and> allocations (Batch_allocate self line h self) = allocations (h self)
        \<and> allocated_quantity (Batch_allocate self line h self) = allocated_quantity (h self)
        \<and> available_quantity (Batch_allocate self line h self) = available_quantity (h self))
   \<and> (OrderLine.sku line \<noteq> Batch.sku (h self) \<longrightarrow> Batch_allocate self line h = h)
   \<and> (available_quantity (h self) < qty line \<longrightarrow> Batch_allocate self line h = h)"
  by (auto simp: Batch_allocate_def can_allocate_def)

theorem Batch_allocate_cases_witness:
  "fst (can_allocate 2 example_line example_heap)
   \<and> example_line |\<in>| allocations (Batch_allocate 2 example_line example_heap 2)
   \<and> OrderLine.sku other_sku_line \<noteq> Batch.sku (example_heap 2)
   \<and> Batch_allocate 2 other_sku_line example_heap = example_heap
   \<and> available_quantity (allocated_heap 2) < qty exact_line
   \<and> Batch_allocate 2 exact_line allocated_heap = allocated_heap"
proof -
  have a: "fst (can_allocate 2 example_line example_heap)"
    by (simp add: example_defs)
  have b: "OrderLine.sku other_sku_line \<noteq> Batch.sku (example_heap 2)"
    by (simp add: example_defs)
  have "allocated_heap 2 = (example_heap 2)\<lparr>allocations := {|example_line|}\<rparr>"
    using a Batch_allocate_cases [of 2 example_line example_heap]
    by (simp add: allocated_heap_def example_heap_def Batch_init_def)
  then have c: "available_quantity (allocated_heap 2) < qty exact_line"
    by (simp add: example_defs)
  from a b c Batch_allocate_cases [of 2 example_line example_heap]
    Batch_allocate_cases [of 2 other_sku_line example_heap]
    Batch_allocate_cases [of 2 exact_line allocated_heap]
  show ?thesis by blast
qed

text \<open>
  C6.  \<open>Batch.allocate\<close> is idempotent: a second call with an equal line leaves the
  store, and so the allocation set, the allocated and the available quantity of the
  batch, as the first call left them.
\<close>

theorem Batch_allocate_idempotent:
  "Batch_allocate self line (Batch_allocate self line h) = Batch_allocate self line h
   \<and> allocations (Batch_allocate self line (Batch_allocate self line h) self)
       = allocations (Batch_allocate self line h self)
   \<and> allocated_quantity (Batch_allocate self line (Batch_allocate self line h) self)
       = allocated_quantity (Batch_allocate self line h self)
   \<and> available_quantity (Batch_allocate self line (Batch_allocate self line h) self)
       = available_quantity (Batch_allocate self line h self)"
proof -
  have "Batch_allocate self line (Batch_allocate self line h) = Batch_allocate self line h"
  proof (cases "fst (can_allocate self line h)")
    case False
    then show ?thesis by (simp add: Batch_allocate_no)
  next
    case True
    let ?h1 = "h(self := (h self)\<lparr>allocations := finsert line (allocations (h self))\<rparr>)"
    have h1: "Batch_allocate self line h = ?h1" using True by (rule Batch_allocate_ok)
    show ?thesis
    proof (cases "fst (can_allocate self line ?h1)")
      case False
      then show ?thesis by (simp add: h1 Batch_allocate_no)
    next
      case True
      then show ?thesis by (simp add: h1 Batch_allocate_ok)
    qed
  qed
  then show ?thesis by simp
qed

theorem Batch_allocate_idempotent_witness:
  "allocations (Batch_allocate 2 example_line (Batch_allocate 2 example_line example_heap) 2)
     = {|example_line|}
   \<and> available_quantity
       (Batch_allocate 2 example_line (Batch_allocate 2 example_line example_heap) 2) = 18"
proof -
  have a: "fst (can_allocate 2 example_line example_heap)"
    by (simp add: example_defs)
  then have "Batch_allocate 2 example_line example_heap 2
      = (example_heap 2)\<lparr>allocations := {|example_line|}\<rparr>"
    by (simp add: Batch_allocate_ok example_heap_def Batch_init_def)
  with Batch_allocate_idempotent [of 2 example_line example_heap]
  show ?thesis by (simp add: example_defs)
qed

text \<open>
  C7 does not hold for a line that is already allocated.  After \<open>example_line\<close> has been
  allocated to the batch in stock, the batch can still allocate it; allocating it again
  changes nothing, and deallocating it then removes it: the available quantity goes from
  18 to 20 and the line, a member before, is no longer one.
\<close>

theorem roundtrip_counterexample:
  "fst (can_allocate 2 example_line allocated_heap)
   \<and> available_quantity (allocated_heap 2) = 18
   \<and> available_quantity
       (Batch_deallocate 2 example_line (Batch_allocate 2 example_line allocated_heap) 2) = 20
   \<and> example_line |\<in>| allocations (allocated_heap 2)
   \<and> example_line |\<notin>| allocations
       (Batch_deallocate 2 example_line (Batch_allocate 2 example_line allocated_heap) 2)"
proof -
  have "fst (can_allocate 2 example_line example_heap)"
    by (simp add: example_defs)
  then have st: "allocated_heap =
      example_heap(2 := (example_heap 2)\<lparr>allocations := {|example_line|}\<rparr>)"
    by (simp add: allocated_heap_def Batch_allocate_ok example_heap_def Batch_init_def)
  have can: "fst (can_allocate 2 example_line allocated_heap)"
    by (simp add: st example_defs)
  then have again: "Batch_allocate 2 example_line allocated_heap = allocated_heap"
    by (simp add: Batch_allocate_ok st)
  show ?thesis
    using can by (simp add: again Batch_deallocate_def) (simp add: st example_defs)
qed

text \<open>
  C7, amended.  \<open>Batch.deallocate\<close> removes the line from the allocation set when it is
  a member and leaves the store unchanged when it is not.  For a line that the batch
  can allocate and that is not yet in its allocation set, \<open>allocate\<close> followed by
  \<open>deallocate\<close> restores the store, so the available quantity and the allocation set
  are the ones before the allocation.
\<close>

theorem Batch_deallocate_roundtrip:
  "(line |\<in>| allocations (h self) \<longrightarrow>
      Batch_deallocate self line h =
        h(self := (h self)\<lparr>allocations := allocations (h self) |-| {|line|}\<rparr>)
      \<and> line |\<notin>| allocations (Batch_deallocate self line h self))
   \<and> (line |\<notin>| allocations (h self) \<longrightarrow> Batch_deallocate self line h = h)
   \<and> (fst (can_allocate self line h) \<and> line |\<notin>| allocations (h self) \<longrightarrow>
        Batch_deallocate self line (Batch_allocate self line h) = h
        \<and> available_quantity (Batch_deallocate self line (Batch_allocate self line h) self)
            = available_quantity (h self)
        \<and> allocations (Batch_deallocate self line (Batch_allocate self line h) self)
            = allocations (h self))"
proof -
  have rt: "Batch_deallocate self line (Batch_allocate self line h) = h"
    if "fst (can_allocate self line h)" "line |\<notin>| allocations (h self)"
  proof -
    from that(2) have "finsert line (allocations (h self)) |-| {|line|} = allocations (h self)"
      by auto
    with that(1) show ?thesis
      by (simp add: Batch_allocate_ok Batch_deallocate_def)
  qed
  show ?thesis using rt by (auto simp: Batch_deallocate_def)
qed

theorem Batch_deallocate_roundtrip_witness:
  "fst (can_allocate 2 example_line example_heap)
   \<and> example_line |\<notin>| allocations (example_heap 2)
   \<and> Batch_deallocate 2 example_line (Batch_allocate 2 example_line example_heap) = example_heap
   \<and> example_line |\<in>| allocations (allocated_heap 2)
   \<and> example_line |\<notin>| allocations (Batch_deallocate 2 example_line allocated_heap 2)
   \<and> Batch_deallocate 2 example_line example_heap = example_heap"
proof -
  have a: "fst (can_allocate 2 example_line example_heap)"
    by (simp add: example_defs)
  have b: "example_line |\<notin>| allocations (example_heap 2)"
    by (simp add: example_defs)
  have c: "example_line |\<in>| allocations (allocated_heap 2)"
    using a by (simp add: allocated_heap_def Batch_allocate_ok)
  from a b c Batch_deallocate_roundtrip [of example_line example_heap 2]
    Batch_deallocate_roundtrip [of example_line allocated_heap 2]
  show ?thesis by blast
qed

subsection \<open>Identity and ordering of batches\<close>

text \<open>
  C8.  Two batches compare equal exactly when their references are equal, whatever
  their other fields hold, and the hash of a batch is the hash of its reference; so
  batches with one reference are equal and have one hash.
\<close>

theorem Batch_eq_hash:
  "Batch_eq b1 (BatchObj b2) = (reference b1 = reference b2)
   \<and> Batch_hash str_hash b1 = str_hash (reference b1)
   \<and> (reference b1 = reference b2 \<longrightarrow>
        Batch_eq b1 (BatchObj b2) \<and> Batch_hash str_hash b1 = Batch_hash str_hash b2)"
  by (auto simp: Batch_hash_def)

theorem Batch_eq_hash_witness:
  "reference (example_heap 2) = reference (Batch_init ''batch-in-stock'' 9 5 (Some 1))
   \<and> example_heap 2 \<noteq> Batch_init ''batch-in-stock'' 9 5 (Some 1)
   \<and> Batch_eq (example_heap 2) (BatchObj (Batch_init ''batch-in-stock'' 9 5 (Some 1)))
   \<and> Batch_hash (\<lambda>s. int (length s)) (example_heap 2)
       = Batch_hash (\<lambda>s. int (length s)) (Batch_init ''batch-in-stock'' 9 5 (Some 1))"
proof -
  have "reference (example_heap 2) = reference (Batch_init ''batch-in-stock'' 9 5 (Some 1))"
    by (simp add: example_defs)
  moreover have "example_heap 2 \<noteq> Batch_init ''batch-in-stock'' 9 5 (Some 1)"
    by (simp add: example_defs)
  ultimately show ?thesis
    using Batch_eq_hash [of "example_heap 2" "Batch_init ''batch-in-stock'' 9 5 (Some 1)"
        "\<lambda>s. int (length s)"]
    by blast
qed

text \<open>
  C9.  The comparison of batches looks at eta only.  A batch without eta is never
  greater than another batch; a dated batch is greater than every batch without eta and
  than every batch with an earlier date.  In the sorted list no batch is greater than a
  later one: batches without eta come before dated ones and dates ascend.  The sort is
  stable: the batches of one eta keep their input order.  Hence the batch that
  \<open>allocate\<close> selects is the first batch of the input list among those of its eta
  that can allocate the line.
\<close>

theorem batch_ordering:
  "(eta a = eta a' \<and> eta b = eta b' \<longrightarrow> Batch_gt a b = Batch_gt a' b')
   \<and> (eta a = None \<longrightarrow> \<not> Batch_gt a b)
   \<and> (Batch_gt a b \<longleftrightarrow>
        (\<exists>d. eta a = Some d \<and> (eta b = None \<or> (\<exists>e. eta b = Some e \<and> e < d))))
   \<and> sorted_wrt (\<lambda>x y. \<not> Batch_gt (h x) (h y)) (sorted_batches h batches)
   \<and> (\<forall>i j. i < j \<and> j < length batches \<longrightarrow>
        (eta (h (sorted_batches h batches ! j)) = None
           \<longrightarrow> eta (h (sorted_batches h batches ! i)) = None)
        \<and> (\<forall>d e. eta (h (sorted_batches h batches ! i)) = Some d
                 \<and> eta (h (sorted_batches h batches ! j)) = Some e \<longrightarrow> d \<le> e))
   \<and> (\<forall>k. filter (\<lambda>x. eta (h x) = k) (sorted_batches h batches)
            = filter (\<lambda>x. eta (h x) = k) batches)
   \<and> (\<forall>c. fst (next_can_allocate line (sorted_batches h batches) h) = Some c \<longrightarrow>
        find (\<lambda>x. eta (h x) = eta (h c) \<and> fst (can_allocate x line h)) batches = Some c)"
proof -
  let ?s = "sorted_batches h batches"
  let ?P = "\<lambda>x. fst (can_allocate x line h)"
  have gt: "Batch_gt a b \<longleftrightarrow>
      (\<exists>d. eta a = Some d \<and> (eta b = None \<or> (\<exists>e. eta b = Some e \<and> e < d)))" for a b
    by (auto simp: Batch_gt_def split: option.splits)
  have srt: "sorted_wrt (\<lambda>x y. \<not> Batch_gt (h x) (h y)) ?s"
    by (rule sorted_batches_not_gt)
  have len: "length ?s = length batches"
    by (simp add: sorted_batches_sort_key)
  have pos: "\<not> Batch_gt (h (?s ! i)) (h (?s ! j))" if "i < j" "j < length batches" for i j
    using srt that len by (simp add: sorted_wrt_iff_nth_less)
  have idx: "(eta (h (?s ! j)) = None \<longrightarrow> eta (h (?s ! i)) = None)
        \<and> (\<forall>d e. eta (h (?s ! i)) = Some d \<and> eta (h (?s ! j)) = Some e \<longrightarrow> d \<le> e)"
    if "i < j \<and> j < length batches" for i j
    using pos [of i j] that by (auto simp: gt)
  have stab: "filter (\<lambda>x. eta (h x) = k) ?s = filter (\<lambda>x. eta (h x) = k) batches" for k
    by (rule sorted_batches_stable)
  have tie: "find (\<lambda>x. eta (h x) = eta (h c) \<and> ?P x) batches = Some c"
    if "fst (next_can_allocate line ?s h) = Some c" for c
  proof -
    from that have "find ?P ?s = Some c" by (simp add: next_can_allocate_find)
    then have "find ?P (filter (\<lambda>x. eta (h x) = eta (h c)) ?s) = Some c"
      by (rule find_Some_filter) simp
    then have "find ?P (filter (\<lambda>x. eta (h x) = eta (h c)) batches) = Some c"
      by (simp add: stab)
    then show ?thesis by (simp add: find_filter)
  qed
  have only: "eta a = eta a' \<and> eta b = eta b' \<longrightarrow> Batch_gt a b = Batch_gt a' b'"
    by (simp add: gt)
  have none: "eta a = None \<longrightarrow> \<not> Batch_gt a b"
    by (simp add: Batch_gt_def)
  from only none gt [of a b] srt idx stab tie show ?thesis by blast
qed

theorem batch_ordering_witness:
  "eta (example_heap 2) = None
   \<and> \<not> Batch_gt (example_heap 2) (example_heap 0)
   \<and> Batch_gt (example_heap 0) (example_heap 1)
   \<and> sorted_batches example_heap [0, 1, 2] = [2, 1, 0]
   \<and> fst (next_can_allocate example_line (sorted_batches tie_heap [2, 0, 1]) tie_heap) = Some 0
   \<and> find (\<lambda>x. eta (tie_heap x) = eta (tie_heap 0)
              \<and> fst (can_allocate x example_line tie_heap)) [2, 0, 1] = Some 0"
proof -
  have a: "eta (example_heap 2) = None"
    by (simp add: example_defs)
  have b: "Batch_gt (example_heap 0) (example_heap 1)"
    by (simp add: example_defs Batch_gt_def)
  have c: "sorted_batches example_heap [0, 1, 2] = [2, 1, 0]"
    by (simp add: sorted_batches_def Batch_lt_def Batch_gt_def example_defs)
  have tie: "sorted_batches tie_heap [2, 0, 1] = [0, 1, 2]"
    by (simp add: sorted_batches_def Batch_lt_def Batch_gt_def tie_heap_def Batch_init_def)
  have d: "fst (next_can_allocate example_line (sorted_batches tie_heap [2, 0, 1]) tie_heap)
      = Some 0"
    unfolding tie by (simp add: tie_heap_def example_defs)
  from a b c d
    batch_ordering [of "example_heap 2" "example_heap 2" "example_heap 0" "example_heap 0"
      tie_heap "[2, 0, 1]" example_line]
  show ?thesis by blast
qed

end
